theory Spec2Isabelle
  imports Complex_Main "HOL-Library.AList"
begin

section \<open>Python values and built-ins used by the script\<close>

text \<open>
  The script \<^verbatim>\<open>scripts/utilities/system-info-gatherer.py\<close> is a collection of probes.
  Each probe asks the host something (the OS family, the outcome of a child process, the
  lines of a pseudo-file, whether an executable or a path exists) and assembles a
  dictionary. The host's answers are the inputs of the model; the dictionaries are
  association lists in insertion order, as Python's \<^verbatim>\<open>dict\<close> keeps them, written with
  \<^const>\<open>AList.update\<close> (replace in place, or append a new key at the end).

  Strings are lists of bytes: the model covers ASCII text. Exceptions are values.
\<close>

datatype exn =
    TimeoutExpired
  | ValueError string
  | IndexError
  | OSError string
  | OtherException string

type_synonym 'a dict = "(string \<times> 'a) list"

abbreviation NL :: char where
  "NL \<equiv> CHR 0x0A"

text \<open>\<^verbatim>\<open>xs[i]\<close> for a non-negative literal index: IndexError out of range.\<close>

definition py_index :: "'a list \<Rightarrow> nat \<Rightarrow> exn + 'a" where
  "py_index xs i = (if i < length xs then Inr (xs ! i) else Inl IndexError)"

text \<open>
  The characters \<^verbatim>\<open>str.strip()\<close> and \<^verbatim>\<open>str.split()\<close> treat as whitespace in the ASCII
  range: TAB, LF, VT, FF, CR, the separators 0x1C to 0x1F, and the space.
\<close>

definition is_space :: "char \<Rightarrow> bool" where
  "is_space c =
     (c = CHR 0x09 \<or> c = CHR 0x0A \<or> c = CHR 0x0B \<or> c = CHR 0x0C \<or> c = CHR 0x0D \<or>
      c = CHR 0x1C \<or> c = CHR 0x1D \<or> c = CHR 0x1E \<or> c = CHR 0x1F \<or> c = CHR 0x20)"

text \<open>\<^verbatim>\<open>s.strip()\<close>\<close>

definition strip :: "string \<Rightarrow> string" where
  "strip s = rev (dropWhile is_space (rev (dropWhile is_space s)))"

text \<open>
  \<^verbatim>\<open>s.split(sep)\<close> for a non-empty separator: the pieces between the non-overlapping
  occurrences of \<^verbatim>\<open>sep\<close>, found left to right. The accumulator holds the current piece
  reversed. (Python raises ValueError on an empty separator; the script only passes the
  literals \<^verbatim>\<open>'\n'\<close> and \<^verbatim>\<open>': '\<close>, and the model reads an empty separator as never
  matching.)
\<close>

function split_acc :: "string \<Rightarrow> string \<Rightarrow> string \<Rightarrow> string list" where
  "split_acc sep acc [] = [rev acc]"
| "split_acc sep acc (c # cs) =
     (if sep \<noteq> [] \<and> take (length sep) (c # cs) = sep
      then rev acc # split_acc sep [] (drop (length sep - 1) cs)
      else split_acc sep (c # acc) cs)"
  by pat_completeness auto
termination
  by (relation "measure (\<lambda>(sep, acc, s). length s)") auto

definition split_sep :: "string \<Rightarrow> string \<Rightarrow> string list" where
  "split_sep sep s = split_acc sep [] s"

text \<open>\<^verbatim>\<open>s.split()\<close>: the maximal runs of non-whitespace characters.\<close>

fun split_ws_acc :: "string \<Rightarrow> string \<Rightarrow> string list" where
  "split_ws_acc acc [] = (if acc = [] then [] else [rev acc])"
| "split_ws_acc acc (c # cs) =
     (if is_space c
      then (if acc = [] then split_ws_acc [] cs else rev acc # split_ws_acc [] cs)
      else split_ws_acc (c # acc) cs)"

definition split_ws :: "string \<Rightarrow> string list" where
  "split_ws s = split_ws_acc [] s"

text \<open>\<^verbatim>\<open>sub in s\<close>\<close>

fun contains :: "string \<Rightarrow> string \<Rightarrow> bool" where
  "contains sub [] = (sub = [])"
| "contains sub (c # cs) = (take (length sub) (c # cs) = sub \<or> contains sub cs)"

text \<open>
  \<^verbatim>\<open>int(s)\<close> on a string, base 10: surrounding whitespace is dropped, one sign is
  allowed, then decimal digits, where single underscores may stand between digits.
  Anything else is a ValueError.
\<close>

definition is_digit :: "char \<Rightarrow> bool" where
  "is_digit c = (let n = (of_char c :: nat) in 48 \<le> n \<and> n \<le> 57)"

definition digit_val :: "char \<Rightarrow> int" where
  "digit_val c = int (of_char c) - 48"

fun parse_digits :: "int \<Rightarrow> string \<Rightarrow> int option" where
  "parse_digits acc [] = Some acc"
| "parse_digits acc [c] = (if is_digit c then Some (acc * 10 + digit_val c) else None)"
| "parse_digits acc (c # d # ds) =
     (if is_digit c then parse_digits (acc * 10 + digit_val c) (d # ds)
      else if c = CHR ''_'' \<and> is_digit d then parse_digits (acc * 10 + digit_val d) ds
      else None)"

definition parse_unsigned :: "string \<Rightarrow> int option" where
  "parse_unsigned s =
     (case s of
        [] \<Rightarrow> None
      | c # cs \<Rightarrow> if is_digit c then parse_digits (digit_val c) cs else None)"

definition parse_signed :: "string \<Rightarrow> int option" where
  "parse_signed s =
     (case s of
        [] \<Rightarrow> None
      | c # cs \<Rightarrow>
          if c = CHR ''-'' then map_option uminus (parse_unsigned cs)
          else if c = CHR ''+'' then parse_unsigned cs
          else parse_unsigned (c # cs))"

definition py_int :: "string \<Rightarrow> exn + int" where
  "py_int s = (case parse_signed (strip s) of None \<Rightarrow> Inl (ValueError s) | Some n \<Rightarrow> Inr n)"

text \<open>
  \<^verbatim>\<open>round(n / d, 1)\<close> for an integer \<^verbatim>\<open>n\<close> and a power of two \<^verbatim>\<open>d\<close>. For \<^verbatim>\<open>n\<close> below
  \<^verbatim>\<open>2**53\<close> the quotient is exact in binary64, and \<^verbatim>\<open>round\<close> takes the exact value to
  the nearest multiple of one tenth, ties to the even digit; the float it returns is the
  one Python prints as that decimal. The model keeps the decimal as a rational.
\<close>

definition py_round1 :: "rat \<Rightarrow> rat" where
  "py_round1 x =
     (let y = x * 10; f = \<lfloor>y\<rfloor>; r = y - of_int f
      in of_int (if r < 1 / 2 then f
                 else if 1 / 2 < r then f + 1
                 else if even f then f else f + 1) / 10)"

section \<open>The host\<close>

text \<open>
  What the probes read from the machine: \<^verbatim>\<open>platform.system()\<close>, the outcome of
  \<^verbatim>\<open>subprocess.run(cmd, capture_output=True, text=True, timeout=t)\<close> (a completed process
  or an exception), \<^verbatim>\<open>open(path, 'r')\<close> (an exception, or the lines the file yields and
  the error, if any, that ends the iteration early), \<^verbatim>\<open>shutil.which(exe)\<close> read as a
  truth value, and \<^verbatim>\<open>os.path.exists(path)\<close>.
\<close>

record completed =
  returncode :: int
  stdout :: string
  stderr :: string

datatype text_file = TextFile (file_lines: "string list") (read_error: "exn option")

record host =
  platform_system :: string
  subprocess_run :: "string list \<Rightarrow> int option \<Rightarrow> exn + completed"
  open_file :: "string \<Rightarrow> exn + text_file"
  shutil_which :: "string \<Rightarrow> bool"
  os_path_exists :: "string \<Rightarrow> bool"

section \<open>Tool probe: \<^verbatim>\<open>check_installed_software\<close>\<close>

definition check_commands :: "string list dict" where
  "check_commands =
    [(''git'', [''git'', ''--version'']),
     (''node'', [''node'', ''--version'']),
     (''npm'', [''npm'', ''--version'']),
     (''python'', [''python'', ''--version'']),
     (''python3'', [''python3'', ''--version'']),
     (''pip'', [''pip'', ''--version'']),
     (''docker'', [''docker'', ''--version'']),
     (''code'', [''code'', ''--version'']),
     (''curl'', [''curl'', ''--version'']),
     (''wget'', [''wget'', ''--version'']),
     (''rust'', [''rustc'', ''--version'']),
     (''cargo'', [''cargo'', ''--version'']),
     (''go'', [''go'', ''version'']),
     (''java'', [''java'', ''-version'']),
     (''mvn'', [''mvn'', ''--version'']),
     (''gradle'', [''gradle'', ''--version'']),
     (''yarn'', [''yarn'', ''--version'']),
     (''composer'', [''composer'', ''--version'']),
     (''php'', [''php'', ''--version'']),
     (''ruby'', [''ruby'', ''--version'']),
     (''gem'', [''gem'', ''--version'']),
     (''terraform'', [''terraform'', ''--version'']),
     (''kubectl'', [''kubectl'', ''version'', ''--client'']),
     (''ansible'', [''ansible'', ''--version'']),
     (''vagrant'', [''vagrant'', ''--version''])]"

text \<open>
  The body of the \<^verbatim>\<open>try\<close>: the string assigned to \<^verbatim>\<open>tools[tool]\<close>, or the exception
  that leaves the block.
\<close>

definition version_check :: "host \<Rightarrow> string list \<Rightarrow> exn + string" where
  "version_check h command =
     (case subprocess_run h command (Some 5) of
        Inl e \<Rightarrow> Inl e
      | Inr result \<Rightarrow>
          if returncode result = 0 then
            (case py_index (split_sep [NL] (stdout result)) 0 of
               Inl e \<Rightarrow> Inl e
             | Inr out_line \<Rightarrow>
                 if stderr result \<noteq> [] then
                   (case py_index (split_sep [NL] (stderr result)) 0 of
                      Inl e \<Rightarrow> Inl e
                    | Inr err_line \<Rightarrow> Inr (strip err_line))
                 else Inr (strip out_line))
          else Inr ''installed (version check failed)'')"

text \<open>The \<^verbatim>\<open>try\<close> with its two handlers.\<close>

definition tool_entry :: "host \<Rightarrow> string list \<Rightarrow> string" where
  "tool_entry h command =
     (case version_check h command of
        Inr v \<Rightarrow> v
      | Inl TimeoutExpired \<Rightarrow> ''installed (timeout)''
      | Inl _ \<Rightarrow> ''installed (error checking version)'')"

text \<open>
  The loop over \<^verbatim>\<open>check_commands.items()\<close>. \<^verbatim>\<open>command[0]\<close> stands outside the \<^verbatim>\<open>try\<close>:
  an IndexError there would leave the probe.
\<close>

fun check_loop :: "host \<Rightarrow> string list dict \<Rightarrow> string dict \<Rightarrow> exn + string dict" where
  "check_loop h [] tools = Inr tools"
| "check_loop h ((tool, command) # rest) tools =
     (case py_index command 0 of
        Inl e \<Rightarrow> Inl e
      | Inr exe \<Rightarrow>
          if shutil_which h exe
          then check_loop h rest (AList.update tool (tool_entry h command) tools)
          else check_loop h rest tools)"

definition check_installed_software :: "host \<Rightarrow> exn + string dict" where
  "check_installed_software h = check_loop h check_commands []"

text \<open>The first line of a text, as the specification speaks of it.\<close>

definition first_line :: "string \<Rightarrow> string" where
  "first_line s = takeWhile (\<lambda>c. c \<noteq> NL) s"

section \<open>Hardware probe: \<^verbatim>\<open>get_hardware_info\<close>\<close>

text \<open>
  A value of the hardware dictionary: the rounded number under \<^verbatim>\<open>ram_gb\<close>, the string
  under \<^verbatim>\<open>cpu\<close>, and under \<^verbatim>\<open>error\<close> the text
  \<^verbatim>\<open>f"Could not gather hardware info: {str(e)}"\<close>, kept as the exception it is built from.
\<close>

datatype hw_value = HFloat rat | HStr string | HError exn

text \<open>
  The \<^verbatim>\<open>try\<close> block mutates \<^verbatim>\<open>hardware\<close> as it goes, so each step returns the
  dictionary as it stands together with the exception, if any, that ended the step.
\<close>

type_synonym hw_state = "hw_value dict \<times> exn option"

definition and_then :: "hw_state \<Rightarrow> (hw_value dict \<Rightarrow> hw_state) \<Rightarrow> hw_state" where
  "and_then r k = (case r of (hardware, Some e) \<Rightarrow> (hardware, Some e) | (hardware, None) \<Rightarrow> k hardware)"

definition windows_memory :: "host \<Rightarrow> hw_value dict \<Rightarrow> hw_state" where
  "windows_memory h hardware =
     (case subprocess_run h [''wmic'', ''computersystem'', ''get'', ''TotalPhysicalMemory''] None of
        Inl e \<Rightarrow> (hardware, Some e)
      | Inr result \<Rightarrow>
          if returncode result = 0 then
            (let lines = split_sep [NL] (strip (stdout result)) in
             if length lines > 1 then
               (case py_index lines 1 of
                  Inl e \<Rightarrow> (hardware, Some e)
                | Inr l \<Rightarrow>
                    (case py_int (strip l) of
                       Inl e \<Rightarrow> (hardware, Some e)
                     | Inr memory_bytes \<Rightarrow>
                         (AList.update ''ram_gb''
                            (HFloat (py_round1 (of_int memory_bytes / 1024 ^ 3))) hardware,
                          None)))
             else (hardware, None))
          else (hardware, None))"

definition windows_cpu :: "host \<Rightarrow> hw_value dict \<Rightarrow> hw_state" where
  "windows_cpu h hardware =
     (case subprocess_run h [''wmic'', ''cpu'', ''get'', ''Name''] None of
        Inl e \<Rightarrow> (hardware, Some e)
      | Inr result \<Rightarrow>
          if returncode result = 0 then
            (let lines = split_sep [NL] (strip (stdout result)) in
             if length lines > 1 then
               (case py_index lines 1 of
                  Inl e \<Rightarrow> (hardware, Some e)
                | Inr l \<Rightarrow> (AList.update ''cpu'' (HStr (strip l)) hardware, None))
             else (hardware, None))
          else (hardware, None))"

definition darwin_memory :: "host \<Rightarrow> hw_value dict \<Rightarrow> hw_state" where
  "darwin_memory h hardware =
     (case subprocess_run h [''sysctl'', ''hw.memsize''] None of
        Inl e \<Rightarrow> (hardware, Some e)
      | Inr result \<Rightarrow>
          if returncode result = 0 then
            (case py_index (split_sep '': '' (stdout result)) 1 of
               Inl e \<Rightarrow> (hardware, Some e)
             | Inr field \<Rightarrow>
                 (case py_int field of
                    Inl e \<Rightarrow> (hardware, Some e)
                  | Inr memory_bytes \<Rightarrow>
                      (AList.update ''ram_gb''
                         (HFloat (py_round1 (of_int memory_bytes / 1024 ^ 3))) hardware,
                       None)))
          else (hardware, None))"

definition darwin_cpu :: "host \<Rightarrow> hw_value dict \<Rightarrow> hw_state" where
  "darwin_cpu h hardware =
     (case subprocess_run h [''sysctl'', ''-n'', ''machdep.cpu.brand_string''] None of
        Inl e \<Rightarrow> (hardware, Some e)
      | Inr result \<Rightarrow>
          if returncode result = 0
          then (AList.update ''cpu'' (HStr (strip (stdout result))) hardware, None)
          else (hardware, None))"

text \<open>
  The two \<^verbatim>\<open>for line in f\<close> loops of the Linux branch. Each stops at the first line
  holding its key; when the lines run out, the error that ended the file (if any) is
  raised.
\<close>

fun meminfo_loop :: "string list \<Rightarrow> exn option \<Rightarrow> hw_value dict \<Rightarrow> hw_state" where
  "meminfo_loop [] err hardware = (hardware, err)"
| "meminfo_loop (line # rest) err hardware =
     (if contains ''MemTotal:'' line then
        (case py_index (split_ws line) 1 of
           Inl e \<Rightarrow> (hardware, Some e)
         | Inr field \<Rightarrow>
             (case py_int field of
                Inl e \<Rightarrow> (hardware, Some e)
              | Inr memory_kb \<Rightarrow>
                  (AList.update ''ram_gb''
                     (HFloat (py_round1 (of_int memory_kb / 1024 ^ 2))) hardware,
                   None)))
      else meminfo_loop rest err hardware)"

fun cpuinfo_loop :: "string list \<Rightarrow> exn option \<Rightarrow> hw_value dict \<Rightarrow> hw_state" where
  "cpuinfo_loop [] err hardware = (hardware, err)"
| "cpuinfo_loop (line # rest) err hardware =
     (if contains ''model name'' line then
        (case py_index (split_sep '': '' line) 1 of
           Inl e \<Rightarrow> (hardware, Some e)
         | Inr field \<Rightarrow> (AList.update ''cpu'' (HStr (strip field)) hardware, None))
      else cpuinfo_loop rest err hardware)"

definition linux_memory :: "host \<Rightarrow> hw_value dict \<Rightarrow> hw_state" where
  "linux_memory h hardware =
     (case open_file h ''/proc/meminfo'' of
        Inl e \<Rightarrow> (hardware, Some e)
      | Inr f \<Rightarrow> meminfo_loop (file_lines f) (read_error f) hardware)"

definition linux_cpu :: "host \<Rightarrow> hw_value dict \<Rightarrow> hw_state" where
  "linux_cpu h hardware =
     (case open_file h ''/proc/cpuinfo'' of
        Inl e \<Rightarrow> (hardware, Some e)
      | Inr f \<Rightarrow> cpuinfo_loop (file_lines f) (read_error f) hardware)"

text \<open>The \<^verbatim>\<open>try\<close> block, from the empty dictionary.\<close>

definition hardware_try :: "host \<Rightarrow> hw_state" where
  "hardware_try h =
     (if platform_system h = ''Windows'' then and_then (windows_memory h []) (windows_cpu h)
      else if platform_system h = ''Darwin'' then and_then (darwin_memory h []) (darwin_cpu h)
      else if platform_system h = ''Linux'' then and_then (linux_memory h []) (linux_cpu h)
      else ([], None))"

text \<open>The handler assigns \<^verbatim>\<open>hardware["error"]\<close> in the dictionary as the block left it.\<close>

definition get_hardware_info :: "host \<Rightarrow> hw_value dict" where
  "get_hardware_info h =
     (case hardware_try h of
        (hardware, None) \<Rightarrow> hardware
      | (hardware, Some e) \<Rightarrow> AList.update ''error'' (HError e) hardware)"

section \<open>Environment probe: \<^verbatim>\<open>detect_development_environments\<close>\<close>

definition windows_common_paths :: "(string \<times> string) list" where
  "windows_common_paths =
    [(''Visual Studio Code'', ''Microsoft VS Code''),
     (''Visual Studio'', ''Microsoft Visual Studio''),
     (''IntelliJ IDEA'', ''JetBrains''),
     (''PyCharm'', ''JetBrains''),
     (''WebStorm'', ''JetBrains''),
     (''Sublime Text'', ''Sublime HQ''),
     (''Atom'', ''GitHub''),
     (''Notepad++'', ''Notepad++'')]"

definition darwin_common_paths :: "(string \<times> string) list" where
  "darwin_common_paths =
    [(''/Applications/Visual Studio Code.app'', ''VS Code''),
     (''/Applications/Xcode.app'', ''Xcode''),
     (''/Applications/IntelliJ IDEA.app'', ''IntelliJ IDEA''),
     (''/Applications/PyCharm.app'', ''PyCharm''),
     (''/Applications/WebStorm.app'', ''WebStorm''),
     (''/Applications/Sublime Text.app'', ''Sublime Text''),
     (''/Applications/Atom.app'', ''Atom'')]"

text \<open>
  The probe's state is the \<^verbatim>\<open>environments\<close> dictionary and the list of the paths handed
  to \<^verbatim>\<open>os.path.exists\<close> so far, so that what the probe looks at is part of its result.
\<close>

type_synonym env_state = "string dict \<times> string list"

fun paths_loop :: "host \<Rightarrow> (string \<times> string) list \<Rightarrow> env_state \<Rightarrow> env_state" where
  "paths_loop h [] st = st"
| "paths_loop h ((path, name) # rest) (environments, checked) =
     paths_loop h rest
       (if os_path_exists h path then AList.update name ''installed'' environments
        else environments,
        checked @ [path])"

definition detect_development_environments :: "host \<Rightarrow> env_state" where
  "detect_development_environments h =
     (if platform_system h = ''Windows'' then
        (let common_paths = windows_common_paths in ([], []))
      else if platform_system h = ''Darwin'' then
        (let common_paths = darwin_common_paths in paths_loop h common_paths ([], []))
      else ([], []))"

section \<open>Network probe: \<^verbatim>\<open>get_network_info\<close>\<close>

datatype net_value = NBool bool | NStr string

definition ping_command :: "host \<Rightarrow> string list" where
  "ping_command h =
     (if platform_system h \<noteq> ''Windows'' then [''ping'', ''-c'', ''1'', ''8.8.8.8'']
      else [''ping'', ''-n'', ''1'', ''8.8.8.8''])"

text \<open>The bare \<^verbatim>\<open>except:\<close> takes every exception.\<close>

definition get_network_info :: "host \<Rightarrow> net_value dict" where
  "get_network_info h =
     (case subprocess_run h (ping_command h) (Some 5) of
        Inr result \<Rightarrow> AList.update ''internet_connected'' (NBool (returncode result = 0)) []
      | Inl e \<Rightarrow> AList.update ''internet_connected'' (NStr ''unknown'') [])"

section \<open>Report writer: \<^verbatim>\<open>save_to_markdown\<close>\<close>

text \<open>The Report: six dictionaries, one per probe.\<close>

record report =
  system :: "string dict"
  hardware :: "hw_value dict"
  software :: "string dict"
  environments :: "string dict"
  shell :: "string dict"
  network :: "net_value dict"

text \<open>\<^verbatim>\<open>key.replace('_', ' ').title()\<close> on ASCII text.\<close>

definition is_upper :: "char \<Rightarrow> bool" where
  "is_upper c = (let n = (of_char c :: nat) in 65 \<le> n \<and> n \<le> 90)"

definition is_lower :: "char \<Rightarrow> bool" where
  "is_lower c = (let n = (of_char c :: nat) in 97 \<le> n \<and> n \<le> 122)"

definition to_upper :: "char \<Rightarrow> char" where
  "to_upper c = (if is_lower c then char_of (of_char c - (32 :: nat)) else c)"

definition to_lower :: "char \<Rightarrow> char" where
  "to_lower c = (if is_upper c then char_of (of_char c + (32 :: nat)) else c)"

fun title_from :: "bool \<Rightarrow> string \<Rightarrow> string" where
  "title_from previous_is_cased [] = []"
| "title_from previous_is_cased (c # cs) =
     (if previous_is_cased then to_lower c else to_upper c) #
     title_from (is_upper c \<or> is_lower c) cs"

definition title :: "string \<Rightarrow> string" where
  "title s = title_from False s"

definition replace_char :: "char \<Rightarrow> char \<Rightarrow> string \<Rightarrow> string" where
  "replace_char old new s = map (\<lambda>c. if c = old then new else c) s"

definition humanize :: "string \<Rightarrow> string" where
  "humanize key = title (replace_char CHR ''_'' CHR '' '' key)"

text \<open>
  How the f-strings print a value. Python's \<^verbatim>\<open>repr\<close> of a float and \<^verbatim>\<open>str\<close> of an
  exception are built-ins outside the script: the writer takes them as parameters.
\<close>

fun str_hw :: "(rat \<Rightarrow> string) \<Rightarrow> (exn \<Rightarrow> string) \<Rightarrow> hw_value \<Rightarrow> string" where
  "str_hw float_repr exn_str (HFloat x) = float_repr x"
| "str_hw float_repr exn_str (HStr s) = s"
| "str_hw float_repr exn_str (HError e) = ''Could not gather hardware info: '' @ exn_str e"

fun str_net :: "net_value \<Rightarrow> string" where
  "str_net (NBool b) = (if b then ''True'' else ''False'')"
| "str_net (NStr s) = s"

definition bullet :: "string \<Rightarrow> string \<Rightarrow> string" where
  "bullet k v = ''- **'' @ k @ ''**: '' @ v @ [NL]"

text \<open>
  The writer's result is the list of strings handed to \<^verbatim>\<open>f.write\<close>, in order; the file
  holds their concatenation. \<^verbatim>\<open>now\<close> is the formatted time stamp.
\<close>

definition save_to_markdown ::
  "(rat \<Rightarrow> string) \<Rightarrow> (exn \<Rightarrow> string) \<Rightarrow> string \<Rightarrow> report \<Rightarrow> string list" where
  "save_to_markdown float_repr exn_str now data =
     [''# Computer Information'' @ [NL, NL]] @
     [''*Generated on '' @ now @ ''*'' @ [NL, NL]] @
     [''## System Information'' @ [NL]] @
     map (\<lambda>(key, v). bullet (humanize key) v) (system data) @
     [[NL]] @
     [''## Hardware'' @ [NL]] @
     map (\<lambda>(key, v). bullet (humanize key) (str_hw float_repr exn_str v)) (hardware data) @
     [[NL]] @
     [''## Installed Development Tools'' @ [NL]] @
     map (\<lambda>(tool, version). bullet tool version) (software data) @
     [[NL]] @
     (if environments data \<noteq> [] then
        [''## Development Environments'' @ [NL]] @
        map (\<lambda>(env, status). bullet env status) (environments data) @
        [[NL]]
      else []) @
     [''## Shell Information'' @ [NL]] @
     map (\<lambda>(key, v). bullet (humanize key) v) (shell data) @
     [[NL]] @
     [''## Network'' @ [NL]] @
     map (\<lambda>(key, v). bullet (humanize key) (str_net v)) (network data)"

section \<open>Example hosts\<close>

text \<open>A Linux machine with nothing on the search path, no readable file and no child process.\<close>

definition bare_host :: host where
  "bare_host =
     \<lparr>platform_system = ''Linux'',
      subprocess_run = (\<lambda>cmd t. Inl (OSError ''No such file or directory'')),
      open_file = (\<lambda>p. Inl (OSError ''No such file or directory'')),
      shutil_which = (\<lambda>exe. False),
      os_path_exists = (\<lambda>p. False)\<rparr>"

text \<open>The same machine with one executable on the path, every child process ending the given way.\<close>

definition tool_host :: "string \<Rightarrow> exn + completed \<Rightarrow> host" where
  "tool_host exe outcome =
     bare_host\<lparr>subprocess_run := (\<lambda>cmd t. outcome), shutil_which := (\<lambda>e. e = exe)\<rparr>"

definition exited :: "int \<Rightarrow> string \<Rightarrow> string \<Rightarrow> exn + completed" where
  "exited rc out err = Inr \<lparr>returncode = rc, stdout = out, stderr = err\<rparr>"

text \<open>A Linux machine whose memory pseudo-file reads, and whose CPU pseudo-file does not open.\<close>

definition meminfo_only_host :: host where
  "meminfo_only_host =
     bare_host\<lparr>open_file :=
       (\<lambda>p. if p = ''/proc/meminfo''
            then Inr (TextFile [''MemTotal:       16384000 kB'' @ [NL],
                                ''MemFree:         1000000 kB'' @ [NL]] None)
            else Inl (OSError ''Permission denied''))\<rparr>"

text \<open>A Windows machine on which every path exists and every child process exits 0.\<close>

definition windows_host :: host where
  "windows_host =
     \<lparr>platform_system = ''Windows'',
      subprocess_run = (\<lambda>cmd t. exited 0 [] []),
      open_file = (\<lambda>p. Inl (OSError ''No such file or directory'')),
      shutil_which = (\<lambda>exe. True),
      os_path_exists = (\<lambda>p. True)\<rparr>"

definition sample_report :: "string dict \<Rightarrow> report" where
  "sample_report envs =
     \<lparr>system = [(''os'', ''Linux'')],
      hardware = [(''ram_gb'', HFloat (78 / 5))],
      software = [(''git'', ''git version 2.43.0'')],
      environments = envs,
      shell = [(''current_shell'', ''/bin/bash'')],
      network = [(''internet_connected'', NBool True)]\<rparr>"

section \<open>Facts about the built-ins\<close>

lemma py_index_0: "py_index xs 0 = (case xs of [] \<Rightarrow> Inl IndexError | x # _ \<Rightarrow> Inr x)"
  by (cases xs) (simp_all add: py_index_def)

lemma split_acc_NL_first:
  "split_acc [NL] acc s \<noteq> [] \<and> hd (split_acc [NL] acc s) = rev acc @ first_line s"
  by (induction s arbitrary: acc) (simp_all add: first_line_def)

lemma split_sep_NL_index0: "py_index (split_sep [NL] s) 0 = Inr (first_line s)"
proof -
  have "split_acc [NL] [] s \<noteq> []" and "hd (split_acc [NL] [] s) = first_line s"
    using split_acc_NL_first [of "[]" s] by simp_all
  then show ?thesis by (simp add: split_sep_def py_index_def hd_conv_nth)
qed

section \<open>The tool probe\<close>

lemma check_commands_distinct: "distinct (map fst check_commands)"
  by (simp add: check_commands_def)

lemma check_commands_nonempty: "(tool, command) \<in> set check_commands \<Longrightarrow> command \<noteq> []"
  by (auto simp: check_commands_def)

lemma check_commands_length: "length check_commands = 25"
  by (simp add: check_commands_def)

text \<open>The loop ends normally on every table whose commands are non-empty.\<close>

lemma check_loop_total:
  "\<forall>p \<in> set table. snd p \<noteq> [] \<Longrightarrow> \<exists>tools'. check_loop h table tools = Inr tools'"
proof (induction table arbitrary: tools)
  case Nil
  show ?case by simp
next
  case (Cons p rest)
  obtain t0 c0 where p: "p = (t0, c0)" by (cases p)
  with Cons.prems obtain exe args where c0: "c0 = exe # args" by (cases c0) auto
  from Cons.prems have "\<forall>p \<in> set rest. snd p \<noteq> []" by simp
  then show ?case using Cons.IH by (simp add: p c0 py_index_0)
qed

text \<open>What the loop leaves under each key, for a table without repeated labels.\<close>

lemma check_loop_lookup:
  assumes "check_loop h table tools = Inr tools'" and "distinct (map fst table)"
  shows "map_of tools' t =
           (case map_of table t of
              None \<Rightarrow> map_of tools t
            | Some c \<Rightarrow> if shutil_which h (hd c) then Some (tool_entry h c) else map_of tools t)"
  using assms
proof (induction table arbitrary: tools)
  case Nil
  then show ?case by simp
next
  case (Cons p rest)
  obtain t0 c0 where p: "p = (t0, c0)" by (cases p)
  from Cons.prems p have fresh: "map_of rest t0 = None" and d: "distinct (map fst rest)"
    by (auto simp: map_of_eq_None_iff)
  from Cons.prems(1) p obtain exe args where c0: "c0 = exe # args"
    by (cases c0) (auto simp: py_index_0)
  show ?case
  proof (cases "shutil_which h exe")
    case True
    with Cons.prems(1)
    have "check_loop h rest (AList.update t0 (tool_entry h c0) tools) = Inr tools'"
      by (simp add: p c0 py_index_0)
    from Cons.IH [OF this d] show ?thesis
      using True fresh by (simp add: p c0 AList.update_conv' split: option.split)
  next
    case False
    with Cons.prems(1) have "check_loop h rest tools = Inr tools'"
      by (simp add: p c0 py_index_0)
    from Cons.IH [OF this d] show ?thesis
      using False fresh by (simp add: p c0 split: option.split)
  qed
qed

lemma check_loop_distinct:
  assumes "check_loop h table tools = Inr tools'" and "distinct (map fst tools)"
  shows "distinct (map fst tools')"
  using assms
proof (induction table arbitrary: tools)
  case Nil
  then show ?case by simp
next
  case (Cons p rest)
  obtain t0 c0 where p: "p = (t0, c0)" by (cases p)
  from Cons.prems(1) p obtain exe args where c0: "c0 = exe # args"
    by (cases c0) (auto simp: py_index_0)
  show ?case
  proof (cases "shutil_which h exe")
    case True
    with Cons.prems(1)
    have "check_loop h rest (AList.update t0 (tool_entry h c0) tools) = Inr tools'"
      by (simp add: p c0 py_index_0)
    then show ?thesis
      using Cons.IH Cons.prems(2) by (simp add: AList.distinct_update)
  next
    case False
    with Cons.prems(1) have "check_loop h rest tools = Inr tools'"
      by (simp add: p c0 py_index_0)
    then show ?thesis using Cons.IH Cons.prems(2) by simp
  qed
qed

lemma check_installed_software_total: "\<exists>tools. check_installed_software h = Inr tools"
  unfolding check_installed_software_def
  by (rule check_loop_total) (auto dest: check_commands_nonempty)

lemma check_installed_software_lookup:
  assumes "check_installed_software h = Inr tools"
  shows "map_of tools t =
        (case map_of check_commands t of
           None \<Rightarrow> None
         | Some c \<Rightarrow> if shutil_which h (hd c) then Some (tool_entry h c) else None)"
  using check_loop_lookup
    [OF assms [unfolded check_installed_software_def] check_commands_distinct, of t]
  by (simp split: option.split)

lemma check_installed_software_distinct:
  assumes "check_installed_software h = Inr tools"
  shows "distinct (map fst tools)"
  using check_loop_distinct [OF assms [unfolded check_installed_software_def]] by simp

lemma recorded_entry:
  assumes "(tool, exe # args) \<in> set check_commands" and "shutil_which h exe"
    and "check_installed_software h = Inr tools"
  shows "map_of tools tool = Some (tool_entry h (exe # args))"
proof -
  from assms(1) have "map_of check_commands tool = Some (exe # args)"
    using check_commands_distinct by simp
  with assms(2) check_installed_software_lookup [OF assms(3), of tool]
  show ?thesis by simp
qed

lemma omitted_entry:
  assumes "(tool, exe # args) \<in> set check_commands" and "\<not> shutil_which h exe"
    and "check_installed_software h = Inr tools"
  shows "map_of tools tool = None"
proof -
  from assms(1) have "map_of check_commands tool = Some (exe # args)"
    using check_commands_distinct by simp
  with assms(2) check_installed_software_lookup [OF assms(3), of tool]
  show ?thesis by simp
qed

text \<open>The four ways one version check ends.\<close>

lemma tool_entry_ok:
  assumes "subprocess_run h c (Some 5) = Inr result" and "returncode result = 0"
  shows "tool_entry h c =
           strip (first_line (if stderr result = [] then stdout result else stderr result))"
  using assms by (simp add: tool_entry_def version_check_def split_sep_NL_index0)

lemma tool_entry_failed:
  assumes "subprocess_run h c (Some 5) = Inr result" and "returncode result \<noteq> 0"
  shows "tool_entry h c = ''installed (version check failed)''"
  using assms by (simp add: tool_entry_def version_check_def)

lemma tool_entry_timeout:
  assumes "subprocess_run h c (Some 5) = Inl TimeoutExpired"
  shows "tool_entry h c = ''installed (timeout)''"
  using assms by (simp add: tool_entry_def version_check_def)

lemma tool_entry_error:
  assumes "subprocess_run h c (Some 5) = Inl e" and "e \<noteq> TimeoutExpired"
  shows "tool_entry h c = ''installed (error checking version)''"
  using assms by (cases e) (simp_all add: tool_entry_def version_check_def)

text \<open>The probe on a machine where only \<^verbatim>\<open>git\<close> is installed.\<close>

lemma git_only_run:
  "check_installed_software (tool_host ''git'' outcome) =
     Inr [(''git'', tool_entry (tool_host ''git'' outcome) [''git'', ''--version''])]"
  by (simp add: check_installed_software_def check_commands_def tool_host_def bare_host_def
      py_index_0)

lemma padded_entry:
  "tool_entry (tool_host ''git'' (exited 0 '' v1.2.3'' [])) [''git'', ''--version''] = ''v1.2.3''"
  by (simp add: tool_host_def bare_host_def exited_def tool_entry_def version_check_def
      py_index_0 split_sep_def strip_def is_space_def)

text \<open>
  C2 (as amended). The check table has 25 entries, not 24. For every entry whose
  executable is not on the search path, the probe returns a mapping and the entry's label
  is not one of its keys.
\<close>

theorem C2_absent_tools_omitted:
  assumes "(tool, exe # args) \<in> set check_commands" and "\<not> shutil_which h exe"
  shows "length check_commands = 25 \<and>
         (\<exists>tools. check_installed_software h = Inr tools \<and> tool \<notin> fst ` set tools)"
proof -
  obtain tools where t: "check_installed_software h = Inr tools"
    using check_installed_software_total by blast
  from omitted_entry [OF assms t] have "tool \<notin> fst ` set tools"
    by (simp add: map_of_eq_None_iff)
  with t check_commands_length show ?thesis by blast
qed

theorem C2_absent_tools_omitted_witness:
  "(''rust'', [''rustc'', ''--version'']) \<in> set check_commands \<and>
   \<not> shutil_which (tool_host ''git'' (exited 0 ''git version 2.43.0'' [])) ''rustc'' \<and>
   length check_commands = 25 \<and>
   (\<exists>tools.
      check_installed_software (tool_host ''git'' (exited 0 ''git version 2.43.0'' [])) = Inr tools \<and>
      ''rust'' \<notin> fst ` set tools)"
proof -
  have e: "(''rust'', [''rustc'', ''--version'']) \<in> set check_commands"
    by (simp add: check_commands_def)
  have w: "\<not> shutil_which (tool_host ''git'' (exited 0 ''git version 2.43.0'' [])) ''rustc''"
    by (simp add: tool_host_def)
  from C2_absent_tools_omitted [OF e w] e w show ?thesis by blast
qed

text \<open>C2 as stated speaks of 24 entries; the table of the source has one more.\<close>

theorem C2_table_size_counterexample: "length check_commands \<noteq> 24"
  by (simp add: check_commands_def)

text \<open>
  C3 (as amended). For a tool on the search path whose version command exits 0, the
  recorded value is the first line of standard output with leading and trailing
  whitespace removed when standard error is empty, and the first line of standard error,
  stripped the same way, when standard error is not empty.
\<close>

theorem C3_version_is_stripped_first_line:
  assumes "(tool, exe # args) \<in> set check_commands" and "shutil_which h exe"
    and "subprocess_run h (exe # args) (Some 5) = Inr result" and "returncode result = 0"
  shows "\<exists>tools. check_installed_software h = Inr tools \<and>
           map_of tools tool =
             Some (strip (first_line (if stderr result = [] then stdout result else stderr result)))"
proof -
  obtain tools where t: "check_installed_software h = Inr tools"
    using check_installed_software_total by blast
  from recorded_entry [OF assms(1,2) t] tool_entry_ok [OF assms(3,4)] t
  show ?thesis by simp
qed

theorem C3_version_is_stripped_first_line_witness:
  "(\<exists>tools. check_installed_software (tool_host ''git'' (exited 0 ''v1.2.3'' [])) = Inr tools \<and>
      map_of tools ''git'' = Some ''v1.2.3'') \<and>
   (\<exists>tools. check_installed_software (tool_host ''java'' (exited 0 [] ''java version 17'')) = Inr tools \<and>
      map_of tools ''java'' = Some ''java version 17'')"
proof -
  have g: "(''git'', [''git'', ''--version'']) \<in> set check_commands"
    and j: "(''java'', [''java'', ''-version'']) \<in> set check_commands"
    by (simp_all add: check_commands_def)
  have "\<exists>tools. check_installed_software (tool_host ''git'' (exited 0 ''v1.2.3'' [])) = Inr tools \<and>
      map_of tools ''git'' = Some ''v1.2.3''"
    using C3_version_is_stripped_first_line
      [OF g, of "tool_host ''git'' (exited 0 ''v1.2.3'' [])"
         "\<lparr>returncode = 0, stdout = ''v1.2.3'', stderr = []\<rparr>"]
    by (simp add: tool_host_def exited_def first_line_def strip_def is_space_def)
  moreover
  have "\<exists>tools. check_installed_software (tool_host ''java'' (exited 0 [] ''java version 17'')) = Inr tools \<and>
      map_of tools ''java'' = Some ''java version 17''"
    using C3_version_is_stripped_first_line
      [OF j, of "tool_host ''java'' (exited 0 [] ''java version 17'')"
         "\<lparr>returncode = 0, stdout = [], stderr = ''java version 17''\<rparr>"]
    by (simp add: tool_host_def exited_def first_line_def strip_def is_space_def)
  ultimately show ?thesis by blast
qed

text \<open>
  C3 as stated fails when the first line carries surrounding whitespace: with standard
  output \<^verbatim>\<open>" v1.2.3"\<close> and empty standard error the probe records \<^verbatim>\<open>"v1.2.3"\<close>, which is
  not the first line of standard output.
\<close>

theorem C3_padded_line_counterexample:
  "check_installed_software (tool_host ''git'' (exited 0 '' v1.2.3'' [])) =
     Inr [(''git'', ''v1.2.3'')] \<and>
   first_line '' v1.2.3'' \<noteq> ''v1.2.3''"
  by (simp add: git_only_run padded_entry first_line_def)

text \<open>
  C4. For a tool on the search path the probe returns a mapping whatever the version
  command does, and records "installed (version check failed)" when the command exits
  with a non-zero status, "installed (timeout)" when it times out, and
  "installed (error checking version)" on any other exception; the three strings differ.
\<close>

theorem C4_failure_statuses:
  assumes "(tool, exe # args) \<in> set check_commands" and "shutil_which h exe"
  shows "\<exists>tools. check_installed_software h = Inr tools \<and>
           (\<forall>result. subprocess_run h (exe # args) (Some 5) = Inr result \<longrightarrow>
              returncode result \<noteq> 0 \<longrightarrow>
              map_of tools tool = Some ''installed (version check failed)'') \<and>
           (subprocess_run h (exe # args) (Some 5) = Inl TimeoutExpired \<longrightarrow>
              map_of tools tool = Some ''installed (timeout)'') \<and>
           (\<forall>e. subprocess_run h (exe # args) (Some 5) = Inl e \<longrightarrow> e \<noteq> TimeoutExpired \<longrightarrow>
              map_of tools tool = Some ''installed (error checking version)'') \<and>
           distinct [''installed (version check failed)'', ''installed (timeout)'',
                     ''installed (error checking version)'']"
proof -
  obtain tools where t: "check_installed_software h = Inr tools"
    using check_installed_software_total by blast
  have r: "map_of tools tool = Some (tool_entry h (exe # args))"
    by (rule recorded_entry [OF assms t])
  show ?thesis
    using t r by (auto simp: tool_entry_failed tool_entry_timeout tool_entry_error)
qed

theorem C4_failure_statuses_witness:
  "(\<exists>tools. check_installed_software (tool_host ''git'' (exited 1 [] ''fatal'')) = Inr tools \<and>
      map_of tools ''git'' = Some ''installed (version check failed)'') \<and>
   (\<exists>tools. check_installed_software (tool_host ''git'' (Inl TimeoutExpired)) = Inr tools \<and>
      map_of tools ''git'' = Some ''installed (timeout)'') \<and>
   (\<exists>tools. check_installed_software (tool_host ''git'' (Inl (OSError ''Exec format error''))) = Inr tools \<and>
      map_of tools ''git'' = Some ''installed (error checking version)'')"
proof -
  have g: "(''git'', [''git'', ''--version'']) \<in> set check_commands"
    by (simp add: check_commands_def)
  have w: "shutil_which (tool_host ''git'' outcome) ''git''" for outcome
    by (simp add: tool_host_def)
  have "\<exists>tools. check_installed_software (tool_host ''git'' (exited 1 [] ''fatal'')) = Inr tools \<and>
      map_of tools ''git'' = Some ''installed (version check failed)''"
    using C4_failure_statuses [OF g w, of "exited 1 [] ''fatal''"]
    by (auto simp: tool_host_def exited_def)
  moreover
  have "\<exists>tools. check_installed_software (tool_host ''git'' (Inl TimeoutExpired)) = Inr tools \<and>
      map_of tools ''git'' = Some ''installed (timeout)''"
    using C4_failure_statuses [OF g w, of "Inl TimeoutExpired"]
    by (auto simp: tool_host_def)
  moreover
  have "\<exists>tools. check_installed_software (tool_host ''git'' (Inl (OSError ''Exec format error''))) = Inr tools \<and>
      map_of tools ''git'' = Some ''installed (error checking version)''"
    using C4_failure_statuses [OF g w, of "Inl (OSError ''Exec format error'')"]
    by (auto simp: tool_host_def)
  ultimately show ?thesis by blast
qed

text \<open>
  C9 (as amended). The probe always returns a mapping; each of its keys is a label of the
  check table, and each value is one of the three "installed (...)" strings or the first
  line of the standard output or standard error of that label's command, with leading
  and trailing whitespace removed.
\<close>

theorem C9_keys_and_values:
  "\<exists>tools. check_installed_software h = Inr tools \<and>
     (\<forall>(k, v) \<in> set tools.
        \<exists>command. (k, command) \<in> set check_commands \<and>
          (v = ''installed (version check failed)'' \<or>
           v = ''installed (timeout)'' \<or>
           v = ''installed (error checking version)'' \<or>
           (\<exists>result. subprocess_run h command (Some 5) = Inr result \<and>
              (v = strip (first_line (stdout result)) \<or>
               v = strip (first_line (stderr result))))))"
proof -
  obtain tools where t: "check_installed_software h = Inr tools"
    using check_installed_software_total by blast
  have "\<exists>command. (k, command) \<in> set check_commands \<and>
          (v = ''installed (version check failed)'' \<or>
           v = ''installed (timeout)'' \<or>
           v = ''installed (error checking version)'' \<or>
           (\<exists>result. subprocess_run h command (Some 5) = Inr result \<and>
              (v = strip (first_line (stdout result)) \<or>
               v = strip (first_line (stderr result)))))"
    if kv: "(k, v) \<in> set tools" for k v
  proof -
    from kv check_installed_software_distinct [OF t] have "map_of tools k = Some v"
      by simp
    with check_installed_software_lookup [OF t, of k]
    obtain c where c: "map_of check_commands k = Some c" and v: "v = tool_entry h c"
      by (auto split: option.splits if_splits)
    from c have mem: "(k, c) \<in> set check_commands" by (rule map_of_SomeD)
    show ?thesis
    proof (cases "subprocess_run h c (Some 5)")
      case (Inl e)
      then show ?thesis
        using mem v tool_entry_timeout [of h c] tool_entry_error [of h c e]
        by (cases "e = TimeoutExpired") auto
    next
      case (Inr result)
      then show ?thesis
        using mem v tool_entry_failed [of h c result] tool_entry_ok [of h c result]
        by (cases "returncode result = 0") (auto split: if_splits)
    qed
  qed
  with t show ?thesis by blast
qed

theorem C9_keys_and_values_witness:
  "\<exists>tools. check_installed_software (tool_host ''git'' (exited 0 ''git version 2.43.0'' [])) = Inr tools \<and>
     (''git'', ''git version 2.43.0'') \<in> set tools \<and>
     (\<exists>command. (''git'', command) \<in> set check_commands \<and>
        (''git version 2.43.0'' = ''installed (version check failed)'' \<or>
         ''git version 2.43.0'' = ''installed (timeout)'' \<or>
         ''git version 2.43.0'' = ''installed (error checking version)'' \<or>
         (\<exists>result.
            subprocess_run (tool_host ''git'' (exited 0 ''git version 2.43.0'' [])) command (Some 5) =
              Inr result \<and>
            (''git version 2.43.0'' = strip (first_line (stdout result)) \<or>
             ''git version 2.43.0'' = strip (first_line (stderr result))))))"
proof -
  have e: "tool_entry (tool_host ''git'' (exited 0 ''git version 2.43.0'' [])) [''git'', ''--version'']
             = ''git version 2.43.0''"
    by (simp add: tool_host_def bare_host_def exited_def tool_entry_def version_check_def
        py_index_0 split_sep_def strip_def is_space_def)
  have r: "check_installed_software (tool_host ''git'' (exited 0 ''git version 2.43.0'' [])) =
             Inr [(''git'', ''git version 2.43.0'')]"
    by (simp add: git_only_run e)
  from C9_keys_and_values [of "tool_host ''git'' (exited 0 ''git version 2.43.0'' [])"]
  show ?thesis unfolding r by simp
qed

text \<open>
  C9 as stated fails on the same padded output: the recorded \<^verbatim>\<open>"v1.2.3"\<close> is neither the
  first line of standard output, nor that of standard error, nor a status string.
\<close>

theorem C9_padded_value_counterexample:
  "check_installed_software (tool_host ''git'' (exited 0 '' v1.2.3'' [])) =
     Inr [(''git'', ''v1.2.3'')] \<and>
   subprocess_run (tool_host ''git'' (exited 0 '' v1.2.3'' [])) [''git'', ''--version''] (Some 5) =
     exited 0 '' v1.2.3'' [] \<and>
   ''v1.2.3'' \<noteq> first_line '' v1.2.3'' \<and>
   ''v1.2.3'' \<noteq> first_line [] \<and>
   ''v1.2.3'' \<notin> set [''installed (version check failed)'', ''installed (timeout)'',
                     ''installed (error checking version)'']"
proof -
  have "subprocess_run (tool_host ''git'' (exited 0 '' v1.2.3'' [])) [''git'', ''--version''] (Some 5) =
     exited 0 '' v1.2.3'' []"
    by (simp add: tool_host_def)
  then show ?thesis
    by (simp add: git_only_run padded_entry first_line_def)
qed

text \<open>
  C10. A tool on the search path whose version command exits 0 with empty standard output
  and empty standard error is recorded with the empty string.
\<close>

theorem C10_empty_output_recorded_as_empty:
  assumes "(tool, exe # args) \<in> set check_commands" and "shutil_which h exe"
    and "subprocess_run h (exe # args) (Some 5) = Inr result" and "returncode result = 0"
    and "stdout result = []" and "stderr result = []"
  shows "\<exists>tools. check_installed_software h = Inr tools \<and> map_of tools tool = Some []"
proof -
  obtain tools where t: "check_installed_software h = Inr tools"
    using check_installed_software_total by blast
  from recorded_entry [OF assms(1,2) t] tool_entry_ok [OF assms(3,4)] assms(5,6) t
  show ?thesis by (simp add: first_line_def strip_def)
qed

theorem C10_empty_output_recorded_as_empty_witness:
  "\<exists>tools. check_installed_software (tool_host ''gradle'' (exited 0 [] [])) = Inr tools \<and>
     map_of tools ''gradle'' = Some []"
proof -
  have g: "(''gradle'', [''gradle'', ''--version'']) \<in> set check_commands"
    by (simp add: check_commands_def)
  show ?thesis
    using C10_empty_output_recorded_as_empty
      [OF g, of "tool_host ''gradle'' (exited 0 [] [])" "\<lparr>returncode = 0, stdout = [], stderr = []\<rparr>"]
    by (simp add: tool_host_def exited_def)
qed

section \<open>The hardware probe\<close>

lemma memtotal_line_found: "contains ''MemTotal:'' (''MemTotal:       16384000 kB'' @ [NL])"
  by simp

lemma memtotal_line_field:
  "py_index (split_ws (''MemTotal:       16384000 kB'' @ [NL])) 1 = Inr ''16384000''"
  by (simp add: split_ws_def is_space_def py_index_def)

lemma memtotal_field_value: "py_int ''16384000'' = Inr 16384000"
  by (simp add: py_int_def parse_signed_def parse_unsigned_def strip_def is_space_def
      is_digit_def digit_val_def)

lemma memtotal_rounded: "py_round1 (of_int 16384000 / 1024 ^ 2) = 156 / 10"
  by code_simp

text \<open>The memory loop stops at the first line that holds the key.\<close>

lemma meminfo_loop_skip:
  "\<forall>l \<in> set before. \<not> contains ''MemTotal:'' l \<Longrightarrow>
   meminfo_loop (before @ rest) err hw = meminfo_loop rest err hw"
  by (induction before) simp_all

lemma meminfo_loop_memtotal:
  assumes "\<forall>l \<in> set before. \<not> contains ''MemTotal:'' l"
  shows "meminfo_loop (before @ (''MemTotal:       16384000 kB'' @ [NL]) # after) err hw =
           (AList.update ''ram_gb'' (HFloat (156 / 10)) hw, None)"
proof -
  have "meminfo_loop ((''MemTotal:       16384000 kB'' @ [NL]) # after) err hw =
          (AList.update ''ram_gb'' (HFloat (156 / 10)) hw, None)"
    by (simp only: meminfo_loop.simps memtotal_line_found memtotal_line_field
        memtotal_field_value memtotal_rounded if_True sum.case)
  with meminfo_loop_skip [OF assms] show ?thesis by simp
qed

text \<open>The CPU steps write no key but \<^verbatim>\<open>cpu\<close>.\<close>

lemma cpuinfo_loop_frame:
  "cpuinfo_loop ls err hw = (hw', eo) \<Longrightarrow> k \<noteq> ''cpu'' \<Longrightarrow>
   map_of hw' k = map_of hw k"
  by (induction ls) (auto simp: AList.update_conv' split: if_splits sum.splits)

lemma linux_cpu_frame:
  "linux_cpu h hw = (hw', eo) \<Longrightarrow> k \<noteq> ''cpu'' \<Longrightarrow>
   map_of hw' k = map_of hw k"
  by (auto simp: linux_cpu_def split: sum.splits dest: cpuinfo_loop_frame)

text \<open>The handler keeps every key other than \<^verbatim>\<open>error\<close> as the block left it.\<close>

lemma get_hardware_info_frame:
  assumes "hardware_try h = (gathered, eo)" and "k \<noteq> ''error''"
  shows "map_of (get_hardware_info h) k = map_of gathered k"
  using assms by (cases eo) (simp_all add: get_hardware_info_def AList.update_conv')

lemma meminfo_only_try:
  "hardware_try meminfo_only_host =
     ([(''ram_gb'', HFloat (156 / 10))], Some (OSError ''Permission denied''))"
proof -
  have "meminfo_loop ([] @ (''MemTotal:       16384000 kB'' @ [NL]) #
          [''MemFree:         1000000 kB'' @ [NL]]) None [] =
        (AList.update ''ram_gb'' (HFloat (156 / 10)) [], None)"
    by (rule meminfo_loop_memtotal) simp
  then show ?thesis
    by (simp add: hardware_try_def meminfo_only_host_def bare_host_def and_then_def
        linux_memory_def linux_cpu_def del: meminfo_loop.simps)
qed

text \<open>
  C1 (as amended). When an exception leaves the \<^verbatim>\<open>try\<close> block of the hardware probe,
  the returned mapping holds under \<^verbatim>\<open>error\<close> the message built from that exception, and
  every other key gathered before the exception (such as \<^verbatim>\<open>ram_gb\<close>) is kept with its
  value: the keys are those gathered so far together with \<^verbatim>\<open>error\<close>.
\<close>

theorem C1_error_joins_gathered_fields:
  assumes "hardware_try h = (gathered, Some e)"
  shows "map_of (get_hardware_info h) ''error'' = Some (HError e) \<and>
         (\<forall>k. k \<noteq> ''error'' \<longrightarrow> map_of (get_hardware_info h) k = map_of gathered k) \<and>
         fst ` set (get_hardware_info h) = insert ''error'' (fst ` set gathered)"
  using assms by (simp add: get_hardware_info_def AList.update_conv' AList.dom_update)

theorem C1_error_joins_gathered_fields_witness:
  "hardware_try meminfo_only_host =
     ([(''ram_gb'', HFloat (156 / 10))], Some (OSError ''Permission denied'')) \<and>
   map_of (get_hardware_info meminfo_only_host) ''error'' =
     Some (HError (OSError ''Permission denied'')) \<and>
   map_of (get_hardware_info meminfo_only_host) ''ram_gb'' = Some (HFloat (156 / 10)) \<and>
   fst ` set (get_hardware_info meminfo_only_host) = {''error'', ''ram_gb''}"
  using C1_error_joins_gathered_fields [OF meminfo_only_try] meminfo_only_try by simp

text \<open>
  C1 as stated fails where the memory pseudo-file reads and the CPU pseudo-file does not
  open: the exception is raised after \<^verbatim>\<open>ram_gb\<close> was stored, and the result holds both
  \<^verbatim>\<open>ram_gb\<close> and \<^verbatim>\<open>error\<close>.
\<close>

theorem C1_partial_result_counterexample:
  "snd (hardware_try meminfo_only_host) = Some (OSError ''Permission denied'') \<and>
   get_hardware_info meminfo_only_host =
     [(''ram_gb'', HFloat (156 / 10)), (''error'', HError (OSError ''Permission denied''))] \<and>
   map fst (get_hardware_info meminfo_only_host) \<noteq> [''error'']"
  by (simp add: get_hardware_info_def meminfo_only_try)

text \<open>
  C5. On a Linux host whose memory pseudo-file opens and whose first line holding
  \<^verbatim>\<open>MemTotal:\<close> reads \<^verbatim>\<open>MemTotal:       16384000 kB\<close>, the probe's result maps \<^verbatim>\<open>ram_gb\<close> to
  15.6, which is 16384000 / 1024^2 rounded to one decimal place, whatever the rest of the
  probe does.
\<close>

theorem C5_linux_ram_gb:
  assumes "platform_system h = ''Linux''"
    and "open_file h ''/proc/meminfo'' = Inr f"
    and "file_lines f = before @ (''MemTotal:       16384000 kB'' @ [NL]) # after"
    and "\<forall>l \<in> set before. \<not> contains ''MemTotal:'' l"
  shows "map_of (get_hardware_info h) ''ram_gb'' = Some (HFloat (156 / 10)) \<and>
         py_round1 (16384000 / 1024 ^ 2) = 156 / 10"
proof -
  have m: "linux_memory h [] = ([(''ram_gb'', HFloat (156 / 10))], None)"
    using assms(2,3) meminfo_loop_memtotal [OF assms(4), of after "read_error f" "[]"]
    by (simp add: linux_memory_def)
  obtain gathered eo where c: "linux_cpu h [(''ram_gb'', HFloat (156 / 10))] = (gathered, eo)"
    by (cases "linux_cpu h [(''ram_gb'', HFloat (156 / 10))]")
  from assms(1) m c have t: "hardware_try h = (gathered, eo)"
    by (simp add: hardware_try_def and_then_def)
  from linux_cpu_frame [OF c, of "''ram_gb''"]
  have "map_of gathered ''ram_gb'' = Some (HFloat (156 / 10))" by simp
  moreover have "py_round1 (16384000 / 1024 ^ 2) = 156 / 10"
    using memtotal_rounded by simp
  ultimately show ?thesis
    using get_hardware_info_frame [OF t, of "''ram_gb''"] by simp
qed

theorem C5_linux_ram_gb_witness:
  "platform_system meminfo_only_host = ''Linux'' \<and>
   map_of (get_hardware_info meminfo_only_host) ''ram_gb'' = Some (HFloat (156 / 10))"
proof -
  have s: "platform_system meminfo_only_host = ''Linux''"
    by (simp add: meminfo_only_host_def bare_host_def)
  have o: "open_file meminfo_only_host ''/proc/meminfo'' =
             Inr (TextFile [''MemTotal:       16384000 kB'' @ [NL],
                            ''MemFree:         1000000 kB'' @ [NL]] None)"
    by (simp add: meminfo_only_host_def)
  have l: "file_lines (TextFile [''MemTotal:       16384000 kB'' @ [NL],
                            ''MemFree:         1000000 kB'' @ [NL]] None) =
           [] @ (''MemTotal:       16384000 kB'' @ [NL]) # [''MemFree:         1000000 kB'' @ [NL]]"
    by simp
  have b: "\<forall>l \<in> set []. \<not> contains ''MemTotal:'' l" by simp
  from C5_linux_ram_gb [OF s o l b] s show ?thesis by simp
qed

section \<open>The network probe\<close>

text \<open>
  C6. The network probe returns a mapping with the one key \<^verbatim>\<open>internet_connected\<close>. Its
  value is the boolean true exactly when the ping command completes with status 0, the
  boolean false exactly when it completes with another status, and the string "unknown"
  exactly when running the command raises.
\<close>

theorem C6_internet_connected:
  "\<exists>v. get_network_info h = [(''internet_connected'', v)] \<and>
     (v = NBool True \<longleftrightarrow>
        (\<exists>result. subprocess_run h (ping_command h) (Some 5) = Inr result \<and>
                  returncode result = 0)) \<and>
     (v = NBool False \<longleftrightarrow>
        (\<exists>result. subprocess_run h (ping_command h) (Some 5) = Inr result \<and>
                  returncode result \<noteq> 0)) \<and>
     (v = NStr ''unknown'' \<longleftrightarrow> (\<exists>e. subprocess_run h (ping_command h) (Some 5) = Inl e))"
  by (cases "subprocess_run h (ping_command h) (Some 5)") (auto simp: get_network_info_def)

theorem C6_internet_connected_witness:
  "get_network_info (tool_host ''ping'' (exited 0 ''1 received'' [])) =
     [(''internet_connected'', NBool True)] \<and>
   get_network_info (tool_host ''ping'' (exited 2 [] ''Network is unreachable'')) =
     [(''internet_connected'', NBool False)] \<and>
   get_network_info bare_host = [(''internet_connected'', NStr ''unknown'')]"
proof -
  have "get_network_info (tool_host ''ping'' (exited 0 ''1 received'' [])) =
          [(''internet_connected'', NBool True)]"
    using C6_internet_connected [of "tool_host ''ping'' (exited 0 ''1 received'' [])"]
    by (auto simp: tool_host_def exited_def)
  moreover
  have "get_network_info (tool_host ''ping'' (exited 2 [] ''Network is unreachable'')) =
          [(''internet_connected'', NBool False)]"
    using C6_internet_connected [of "tool_host ''ping'' (exited 2 [] ''Network is unreachable'')"]
    by (auto simp: tool_host_def exited_def)
  moreover
  have "get_network_info bare_host = [(''internet_connected'', NStr ''unknown'')]"
    using C6_internet_connected [of bare_host]
    by (auto simp: bare_host_def)
  ultimately show ?thesis by blast
qed

section \<open>The environment probe\<close>

text \<open>
  C7. On every OS family other than macOS (\<^verbatim>\<open>Darwin\<close>) the environment probe returns the
  empty mapping and hands no path to \<^verbatim>\<open>os.path.exists\<close>; this includes Windows, whose
  candidate list is assigned and never read.
\<close>

theorem C7_only_darwin_is_probed:
  assumes "platform_system h \<noteq> ''Darwin''"
  shows "detect_development_environments h = ([], [])"
  using assms by (simp add: detect_development_environments_def)

theorem C7_only_darwin_is_probed_witness:
  "platform_system windows_host \<noteq> ''Darwin'' \<and>
   os_path_exists windows_host ''Visual Studio Code'' \<and>
   detect_development_environments windows_host = ([], []) \<and>
   platform_system bare_host \<noteq> ''Darwin'' \<and>
   detect_development_environments bare_host = ([], [])"
proof -
  have w: "platform_system windows_host \<noteq> ''Darwin''"
    by (simp add: windows_host_def)
  have l: "platform_system bare_host \<noteq> ''Darwin''"
    by (simp add: bare_host_def)
  have "os_path_exists windows_host ''Visual Studio Code''"
    by (simp add: windows_host_def)
  with C7_only_darwin_is_probed [OF w] C7_only_darwin_is_probed [OF l] w l
  show ?thesis by simp
qed

section \<open>The report writer\<close>

text \<open>
  C8. The writer emits the heading "## Development Environments" exactly when the
  Report's \<^verbatim>\<open>environments\<close> mapping is not empty; when it is emitted, it is followed by one
  bullet per entry, in order, and a blank line. The headings of the five other sections
  are emitted for every Report.
\<close>

theorem C8_environments_section:
  "(''## Development Environments'' @ [NL] \<in> set (save_to_markdown fr es now data)
      \<longleftrightarrow> environments data \<noteq> []) \<and>
   (\<exists>pre post.
      save_to_markdown fr es now data =
        pre @
        (if environments data \<noteq> []
         then (''## Development Environments'' @ [NL]) #
              map (\<lambda>(env, status). ''- **'' @ env @ ''**: '' @ status @ [NL]) (environments data) @
              [[NL]]
         else []) @
        post \<and>
      ''## Development Environments'' @ [NL] \<notin> set pre \<and>
      ''## Development Environments'' @ [NL] \<notin> set post) \<and>
   set [''## System Information'' @ [NL], ''## Hardware'' @ [NL],
        ''## Installed Development Tools'' @ [NL], ''## Shell Information'' @ [NL],
        ''## Network'' @ [NL]] \<subseteq> set (save_to_markdown fr es now data)"
proof -
  let ?h = "''## Development Environments'' @ [NL]"
  let ?pre = "[''# Computer Information'' @ [NL, NL]] @
     [''*Generated on '' @ now @ ''*'' @ [NL, NL]] @
     [''## System Information'' @ [NL]] @
     map (\<lambda>(key, v). bullet (humanize key) v) (system data) @
     [[NL]] @
     [''## Hardware'' @ [NL]] @
     map (\<lambda>(key, v). bullet (humanize key) (str_hw fr es v)) (hardware data) @
     [[NL]] @
     [''## Installed Development Tools'' @ [NL]] @
     map (\<lambda>(tool, version). bullet tool version) (software data) @
     [[NL]]"
  let ?post = "[''## Shell Information'' @ [NL]] @
     map (\<lambda>(key, v). bullet (humanize key) v) (shell data) @
     [[NL]] @
     [''## Network'' @ [NL]] @
     map (\<lambda>(key, v). bullet (humanize key) (str_net v)) (network data)"
  let ?mid = "if environments data \<noteq> []
         then ?h #
              map (\<lambda>(env, status). ''- **'' @ env @ ''**: '' @ status @ [NL]) (environments data) @
              [[NL]]
         else []"
  have pre: "?h \<notin> set ?pre"
    by (auto simp: bullet_def)
  have post: "?h \<notin> set ?post"
    by (auto simp: bullet_def)
  have eq: "save_to_markdown fr es now data = ?pre @ ?mid @ ?post"
    by (auto simp: save_to_markdown_def bullet_def)
  have iff: "?h \<in> set (save_to_markdown fr es now data) \<longleftrightarrow> environments data \<noteq> []"
  proof -
    have "?h \<in> set ?mid \<longleftrightarrow> environments data \<noteq> []" by simp
    with pre post show ?thesis unfolding eq set_append by blast
  qed
  have others: "set [''## System Information'' @ [NL], ''## Hardware'' @ [NL],
        ''## Installed Development Tools'' @ [NL], ''## Shell Information'' @ [NL],
        ''## Network'' @ [NL]] \<subseteq> set (save_to_markdown fr es now data)"
    by (simp add: save_to_markdown_def)
  from iff eq pre post others show ?thesis by blast
qed

theorem C8_environments_section_witness:
  "''## Development Environments'' @ [NL] \<notin>
     set (save_to_markdown (\<lambda>x. ''15.6'') (\<lambda>e. ''Permission denied'') ''2024-01-01 00:00:00''
            (sample_report [])) \<and>
   ''## Development Environments'' @ [NL] \<in>
     set (save_to_markdown (\<lambda>x. ''15.6'') (\<lambda>e. ''Permission denied'') ''2024-01-01 00:00:00''
            (sample_report [(''Xcode'', ''installed'')]))"
  using
    C8_environments_section
      [of "\<lambda>x. ''15.6''" "\<lambda>e. ''Permission denied''" "''2024-01-01 00:00:00''"
          "sample_report []"]
    C8_environments_section
      [of "\<lambda>x. ''15.6''" "\<lambda>e. ''Permission denied''" "''2024-01-01 00:00:00''"
          "sample_report [(''Xcode'', ''installed'')]"]
  by (simp add: sample_report_def)

end
